theory Spec2Isabelle
  imports Complex_Main
begin

section \<open>JavaScript values used by the Knowbook integration\<close>

text \<open>
  A value of TypeScript type \<open>string | undefined\<close> (an optional field, an optional
  argument, an array element that may be out of range) is a \<open>string option\<close>, with
  \<open>None\<close> for \<open>undefined\<close>. The only falsy values of that type are \<open>undefined\<close>
  and the empty string.
\<close>

type_synonym jsval = "string option"

fun truthy :: "jsval \<Rightarrow> bool" where
  "truthy None = False"
| "truthy (Some s) = (s \<noteq> [])"

text \<open>\<open>a || b\<close> on optional strings, and \<open>a || 'literal'\<close>.\<close>

definition js_or :: "jsval \<Rightarrow> jsval \<Rightarrow> jsval" where
  "js_or a b = (if truthy a then a else b)"

definition or_else :: "jsval \<Rightarrow> string \<Rightarrow> string" where
  "or_else a d = (case a of None \<Rightarrow> d | Some s \<Rightarrow> (if s \<noteq> [] then s else d))"

text \<open>A value interpolated into a template literal: \<open>undefined\<close> prints as such.\<close>

definition template :: "jsval \<Rightarrow> string" where
  "template a = (case a of None \<Rightarrow> ''undefined'' | Some s \<Rightarrow> s)"

text \<open>
  \<open>s.split(c)\<close> for a one-character separator: the pieces between the separators, in
  order; the empty string gives one empty piece. \<open>xs[i]\<close> on the resulting array is
  \<open>undefined\<close> out of range.
\<close>

fun js_split :: "char \<Rightarrow> string \<Rightarrow> string list" where
  "js_split c [] = [[]]"
| "js_split c (x # xs) =
     (if x = c then [] # js_split c xs
      else (case js_split c xs of
              [] \<Rightarrow> [[x]]
            | p # ps \<Rightarrow> (x # p) # ps))"

definition js_index :: "string list \<Rightarrow> nat \<Rightarrow> jsval" where
  "js_index xs i = (if i < length xs then Some (xs ! i) else None)"

text \<open>
  An object with string-valued properties (the auth provider's \<open>user_metadata\<close>): a map
  from property names to values. A property may be present with the value
  \<open>undefined\<close> (\<open>Some None\<close>); reading a missing property gives \<open>undefined\<close> too.
\<close>

type_synonym object = "string \<rightharpoonup> jsval"

definition property :: "object \<Rightarrow> string \<Rightarrow> jsval" where
  "property obj k = (case obj k of None \<Rightarrow> None | Some v \<Rightarrow> v)"

section \<open>Exceptions, effects and the outside world\<close>

text \<open>
  What a \<open>throw\<close> or a rejected promise carries. \<open>KnowbookApiError\<close> is the class of
  \<open>knowbook-api.ts\<close> (message, statusCode, details); \<open>JsError\<close> is any other instance of
  \<open>Error\<close> with its message; \<open>NextRedirect\<close> is what \<open>redirect(url)\<close> of
  \<open>next/navigation\<close> throws to leave a server action; \<open>NonError\<close> is a thrown value
  that is no instance of \<open>Error\<close>.
\<close>

datatype thrown =
    JsError string
  | KnowbookApiError string nat jsval
  | NextRedirect string
  | NonError

fun instanceof_KnowbookApiError :: "thrown \<Rightarrow> bool" where
  "instanceof_KnowbookApiError (KnowbookApiError m c d) = True"
| "instanceof_KnowbookApiError e = False"

text \<open>\<open>error instanceof Error ? error.message : 'Unknown error'\<close>\<close>

fun message_or_unknown :: "thrown \<Rightarrow> string" where
  "message_or_unknown (JsError m) = m"
| "message_or_unknown (KnowbookApiError m c d) = m"
| "message_or_unknown (NextRedirect url) = ''NEXT_REDIRECT''"
| "message_or_unknown NonError = ''Unknown error''"

text \<open>The outcome of awaiting a call of a collaborator: it rejects or it resolves.\<close>

datatype 'a outcome = Rejects thrown | Resolves 'a

subsection \<open>The Backend API as seen through \<open>fetch\<close>\<close>

record api_error =
  ae_error :: jsval
  ae_detail :: jsval
  ae_status_code :: "nat option"

record knowbook_organization =
  org_id :: string
  org_name :: string
  org_slug :: string
  org_plan :: string

record knowbook_user =
  ku_id :: string
  ku_name :: string
  ku_email :: string
  ku_api_key :: jsval

record organization_signup_response =
  organization :: knowbook_organization
  admin_user :: knowbook_user
  message :: string

record organization_signup_request =
  req_name :: jsval
  req_domain :: jsval
  req_plan :: jsval
  req_admin_name :: jsval
  req_admin_email :: string
  req_admin_type :: jsval

text \<open>The JSON body of \<open>POST /organizations/signup\<close>, after the defaults are filled in.\<close>

record signup_payload =
  pl_name :: jsval
  pl_domain :: jsval
  pl_plan :: string
  pl_admin_name :: jsval
  pl_admin_email :: string
  pl_admin_type :: string

datatype api_call =
    PostOrganizationsSignup signup_payload
  | GetMe string
  | GetHealth

text \<open>
  A response of the Backend API. \<open>response.json()\<close> is read at type \<open>ApiError\<close> on the
  failure path and at type \<open>OrganizationSignupResponse\<close> on the success path; either
  read may reject (a body that is no JSON). The bodies are taken at their declared
  types.
\<close>

record response =
  status :: nat
  json_ApiError :: "api_error outcome"
  json_SignupResponse :: "organization_signup_response outcome"

text \<open>\<open>response.ok\<close> of the Fetch standard: the status is in the range 200 to 299.\<close>

definition ok :: "response \<Rightarrow> bool" where
  "ok r = (200 \<le> status r \<and> status r \<le> 299)"

subsection \<open>The auth provider\<close>

record auth_user =
  user_id :: string
  user_email :: jsval
  user_metadata :: object

record signUp_credentials =
  su_email :: string
  su_password :: string
  su_emailRedirectTo :: string
  su_full_name :: jsval

text \<open>The \<open>{ data: { user }, error }\<close> that \<open>signUp\<close>, \<open>getUser\<close> and \<open>getUserById\<close> resolve to.\<close>

record user_response =
  data_user :: "auth_user option"
  resp_error :: "string option"

subsection \<open>Events and the world\<close>

datatype level = Log | Warn | Error

datatype event =
    AuthSignUp signUp_credentials
  | AuthGetUser
  | AdminGetUserById string
  | AdminUpdateUserById string object
  | Fetch api_call
  | Console level string

text \<open>
  The collaborators and the runtime, as functions of what they are asked: the auth
  provider's calls, \<open>fetch\<close> against the Backend API, the system clock (the reading of the
  n-th \<open>new Date()\<close>, in milliseconds), \<open>Date.prototype.toISOString\<close> and the time value
  of \<open>new Date(string)\<close> (\<open>None\<close> for an invalid date, whose \<open>getTime()\<close> is NaN).
\<close>

record world =
  auth_signUp :: "signUp_credentials \<Rightarrow> user_response"
  auth_getUser :: "user_response outcome"
  admin_getUserById :: "string \<Rightarrow> user_response outcome"
  admin_updateUserById :: "string \<Rightarrow> object \<Rightarrow> string option outcome"
  fetch :: "api_call \<Rightarrow> response outcome"
  clock :: "nat \<Rightarrow> int"
  toISOString :: "int \<Rightarrow> string"
  date_getTime :: "string \<Rightarrow> int option"

text \<open>
  What a run has done so far: the calls of collaborators and the console messages, in
  order, and the number of clock readings taken. A computation takes the state and
  gives the state it leaves, with the value it resolves to (\<open>Inr\<close>) or the exception it
  throws (\<open>Inl\<close>).
\<close>

record state =
  events :: "event list"
  clock_reads :: nat

type_synonym 'a io = "state \<Rightarrow> (thrown + 'a) \<times> state"

definition io_return :: "'a \<Rightarrow> 'a io" where
  "io_return x = (\<lambda>s. (Inr x, s))"

definition io_throw :: "thrown \<Rightarrow> 'a io" where
  "io_throw e = (\<lambda>s. (Inl e, s))"

definition io_bind :: "'a io \<Rightarrow> ('a \<Rightarrow> 'b io) \<Rightarrow> 'b io" where
  "io_bind m f = (\<lambda>s. case m s of (Inl e, s') \<Rightarrow> (Inl e, s') | (Inr x, s') \<Rightarrow> f x s')"

text \<open>\<open>try { body } catch (error) { handler }\<close>, and \<open>promise.catch(handler)\<close>.\<close>

definition io_try :: "'a io \<Rightarrow> (thrown \<Rightarrow> 'a io) \<Rightarrow> 'a io" where
  "io_try body handler = (\<lambda>s. case body s of (Inl e, s') \<Rightarrow> handler e s' | (Inr x, s') \<Rightarrow> (Inr x, s'))"

definition emit :: "event \<Rightarrow> unit io" where
  "emit ev = (\<lambda>s. (Inr (), s\<lparr>events := events s @ [ev]\<rparr>))"

text \<open>Awaiting a promise that is already settled; awaiting a call of a collaborator.\<close>

definition settle :: "'a outcome \<Rightarrow> 'a io" where
  "settle out = (\<lambda>s. (case out of Rejects e \<Rightarrow> Inl e | Resolves x \<Rightarrow> Inr x, s))"

definition await :: "event \<Rightarrow> 'a outcome \<Rightarrow> 'a io" where
  "await ev out = io_bind (emit ev) (\<lambda>_. settle out)"

text \<open>
  The calls of the auth provider. \<open>signUp\<close> reports a failure in the \<open>error\<close> of what
  it resolves to, which is all the action reads; the other calls may reject as well.
  Constructing the client (\<open>createClient()\<close>) calls nobody and is left out.
\<close>

definition signUp :: "world \<Rightarrow> signUp_credentials \<Rightarrow> user_response io" where
  "signUp w credentials = await (AuthSignUp credentials) (Resolves (auth_signUp w credentials))"

definition getUser :: "world \<Rightarrow> user_response io" where
  "getUser w = await AuthGetUser (auth_getUser w)"

definition getUserById :: "world \<Rightarrow> string \<Rightarrow> user_response io" where
  "getUserById w userId = await (AdminGetUserById userId) (admin_getUserById w userId)"

definition updateUserById :: "world \<Rightarrow> string \<Rightarrow> object \<Rightarrow> string option io" where
  "updateUserById w userId metadata =
     await (AdminUpdateUserById userId metadata) (admin_updateUserById w userId metadata)"

definition do_fetch :: "world \<Rightarrow> api_call \<Rightarrow> response io" where
  "do_fetch w call = await (Fetch call) (fetch w call)"

text \<open>\<open>console.log\<close>, \<open>console.warn\<close> and \<open>console.error\<close>, with their first argument.\<close>

definition console :: "level \<Rightarrow> string \<Rightarrow> unit io" where
  "console l msg = emit (Console l msg)"

text \<open>\<open>new Date()\<close>: the next reading of the clock.\<close>

definition new_Date :: "world \<Rightarrow> int io" where
  "new_Date w = (\<lambda>s. (Inr (clock w (clock_reads s)), s\<lparr>clock_reads := Suc (clock_reads s)\<rparr>))"

text \<open>\<open>redirect(url)\<close> never returns: it throws, and the framework answers the redirect.\<close>

definition redirect :: "string \<Rightarrow> 'a io" where
  "redirect url = io_throw (NextRedirect url)"

definition init :: state where
  "init = \<lparr>events = [], clock_reads = 0\<rparr>"

text \<open>The requests to the Backend API and the metadata writes of a trace, in order.\<close>

fun backend_calls :: "event list \<Rightarrow> api_call list" where
  "backend_calls [] = []"
| "backend_calls (Fetch c # evs) = c # backend_calls evs"
| "backend_calls (ev # evs) = backend_calls evs"

fun metadata_writes :: "event list \<Rightarrow> (string \<times> object) list" where
  "metadata_writes [] = []"
| "metadata_writes (AdminUpdateUserById uid obj # evs) = (uid, obj) # metadata_writes evs"
| "metadata_writes (ev # evs) = metadata_writes evs"

section \<open>The Backend API client (\<open>lib/knowbook-api.ts\<close>)\<close>

text \<open>The object that \<open>createOrganizationWithAdmin\<close> serialises as the request body.\<close>

definition signup_body :: "organization_signup_request \<Rightarrow> signup_payload" where
  "signup_body signupData =
     \<lparr>pl_name = req_name signupData,
      pl_domain = req_domain signupData,
      pl_plan = or_else (req_plan signupData) ''free'',
      pl_admin_name = req_admin_name signupData,
      pl_admin_email = req_admin_email signupData,
      pl_admin_type = or_else (req_admin_type signupData) ''human''\<rparr>"

text \<open>
  The \<open>throw\<close> of the failure path is inside the \<open>try\<close> block: the \<open>catch\<close> clause
  sees it and throws it again.
\<close>

definition createOrganizationWithAdmin ::
  "world \<Rightarrow> organization_signup_request \<Rightarrow> organization_signup_response io" where
  "createOrganizationWithAdmin w signupData =
     io_try
       (io_bind
          (do_fetch w (PostOrganizationsSignup (signup_body signupData)))
          (\<lambda>response.
             if \<not> ok response then
               io_bind
                 (io_try (settle (json_ApiError response))
                    (\<lambda>e. io_return
                       \<lparr>ae_error = Some ''Failed to create organization'',
                        ae_detail = None,
                        ae_status_code = Some (status response)\<rparr>))
                 (\<lambda>errorData.
                    io_throw
                      (KnowbookApiError
                         (or_else (ae_error errorData) ''Failed to create organization'')
                         (status response)
                         (ae_detail errorData)))
             else settle (json_SignupResponse response)))
       (\<lambda>error.
          if instanceof_KnowbookApiError error then io_throw error
          else
            io_bind (console Error ''Knowbook API error:'')
              (\<lambda>_. io_throw
                 (KnowbookApiError ''Network error connecting to Knowbook API'' 500
                    (Some (message_or_unknown error)))))"

definition validateApiKey :: "world \<Rightarrow> string \<Rightarrow> bool io" where
  "validateApiKey w apiKey =
     io_try
       (io_bind (do_fetch w (GetMe apiKey))
          (\<lambda>response. io_return (ok response)))
       (\<lambda>error.
          io_bind (console Error ''API key validation error:'')
            (\<lambda>_. io_return False))"

definition healthCheck :: "world \<Rightarrow> bool io" where
  "healthCheck w =
     io_try
       (io_bind (do_fetch w GetHealth)
          (\<lambda>response. io_return (ok response)))
       (\<lambda>error.
          io_bind (console Error ''Knowbook API health check failed:'')
            (\<lambda>_. io_return False))"

definition createKnowbookOrganization ::
  "world \<Rightarrow> jsval \<Rightarrow> jsval \<Rightarrow> string \<Rightarrow> jsval \<Rightarrow> jsval \<Rightarrow> organization_signup_response io" where
  "createKnowbookOrganization w organizationName adminName adminEmail domain plan =
     createOrganizationWithAdmin w
       \<lparr>req_name = organizationName,
        req_domain = domain,
        req_plan = plan,
        req_admin_name = adminName,
        req_admin_email = adminEmail,
        req_admin_type = None\<rparr>"

definition validateKnowbookApiKey :: "world \<Rightarrow> string \<Rightarrow> bool io" where
  "validateKnowbookApiKey w apiKey = validateApiKey w apiKey"

definition isKnowbookApiAvailable :: "world \<Rightarrow> bool io" where
  "isKnowbookApiAvailable w = healthCheck w"

section \<open>The credential store adapter (\<open>lib/supabase/user-metadata.ts\<close>)\<close>

text \<open>The \<open>{ success, error? }\<close> that \<open>storeKnowbookApiKey\<close> resolves to.\<close>

record store_result =
  success :: bool
  error :: "string option"

text \<open>
  The object literal \<open>metadata\<close> has five properties; \<open>knowbook_user_id\<close> and
  \<open>knowbook_organization_id\<close> are \<open>undefined\<close> when the optional arguments are. The two
  timestamps come from two readings of the clock.
\<close>

definition storeKnowbookApiKey ::
  "world \<Rightarrow> string \<Rightarrow> string \<Rightarrow> jsval \<Rightarrow> jsval \<Rightarrow> store_result io" where
  "storeKnowbookApiKey w userId apiKey knowbookUserId organizationId =
     io_try
       (io_bind (new_Date w) (\<lambda>created.
        io_bind (new_Date w) (\<lambda>validated.
        io_bind
          (updateUserById w userId
             [''knowbook_api_key'' \<mapsto> Some apiKey,
              ''knowbook_user_id'' \<mapsto> knowbookUserId,
              ''knowbook_organization_id'' \<mapsto> organizationId,
              ''api_key_created_at'' \<mapsto> Some (toISOString w created),
              ''api_key_last_validated'' \<mapsto> Some (toISOString w validated)])
          (\<lambda>err.
             case err of
               Some msg \<Rightarrow>
                 io_bind (console Error ''Failed to store Knowbook API key:'')
                   (\<lambda>_. io_return \<lparr>success = False, error = Some msg\<rparr>)
             | None \<Rightarrow> io_return \<lparr>success = True, error = None\<rparr>))))
       (\<lambda>e.
          io_bind (console Error ''Error storing Knowbook API key:'')
            (\<lambda>_. io_return \<lparr>success = False, error = Some (message_or_unknown e)\<rparr>))"

text \<open>
  \<open>{ ...currentMetadata, api_key_last_validated: ... }\<close> is the map update. The test
  \<open>getUserError || !user\<close> has no effect of its own, so the model reads the user first.
\<close>

definition updateApiKeyValidation :: "world \<Rightarrow> string \<Rightarrow> unit io" where
  "updateApiKeyValidation w userId =
     io_try
       (io_bind (getUserById w userId) (\<lambda>r.
          case data_user r of
            None \<Rightarrow> console Error ''Failed to get user for validation update:''
          | Some user \<Rightarrow>
              if resp_error r \<noteq> None
              then console Error ''Failed to get user for validation update:''
              else
                io_bind (new_Date w) (\<lambda>now.
                io_bind
                  (updateUserById w userId
                     ((user_metadata user)
                        (''api_key_last_validated'' \<mapsto> Some (toISOString w now))))
                  (\<lambda>err.
                     case err of
                       Some msg \<Rightarrow>
                         console Error ''Failed to update API key validation timestamp:''
                     | None \<Rightarrow> io_return ()))))
       (\<lambda>e. console Error ''Error updating API key validation:'')"

text \<open>
  \<open>shouldRefreshApiKey\<close>. The difference of the two time values is an integer number of
  milliseconds; the quotient by \<open>1000 * 60 * 60\<close> is taken exactly. (In double precision
  the division of an integer below \<open>2^53\<close> is correctly rounded, rounding is monotone
  and 24 is a double, while a quotient above 24 exceeds it by at least \<open>1 / 3600000\<close>:
  the comparison with 24 has the same result.) An invalid date has the time value NaN,
  and every comparison with NaN is false.
\<close>

definition hoursSinceValidation :: "int \<Rightarrow> int \<Rightarrow> real" where
  "hoursSinceValidation now lastValidated = real_of_int (now - lastValidated) / (1000 * 60 * 60)"

definition shouldRefreshApiKey :: "world \<Rightarrow> object \<Rightarrow> bool io" where
  "shouldRefreshApiKey w metadata =
     (case property metadata ''api_key_last_validated'' of
        None \<Rightarrow> io_return True
      | Some s \<Rightarrow>
          if s = [] then io_return True
          else
            io_bind (new_Date w) (\<lambda>now.
              case date_getTime w s of
                None \<Rightarrow> io_return False
              | Some lastValidated \<Rightarrow>
                  io_return (hoursSinceValidation now lastValidated > 24)))"

section \<open>The signup action (\<open>components/auth/signup/actions.ts\<close>)\<close>

record signup_input =
  in_email :: string
  in_password :: string
  in_fullName :: jsval
  in_organizationName :: jsval
  in_plan :: jsval

definition signUp_data :: "signup_input \<Rightarrow> string \<Rightarrow> signUp_credentials" where
  "signUp_data input baseUrl =
     \<lparr>su_email = in_email input,
      su_password = in_password input,
      su_emailRedirectTo = baseUrl @ ''/auth/confirm'',
      su_full_name = js_or (in_fullName input) (js_index (js_split CHR ''@'' (in_email input)) 0)\<rparr>"

text \<open>The \<open>organizationName\<close> that \<open>signup\<close> computes for the Backend API.\<close>

definition organizationName :: "signup_input \<Rightarrow> jsval" where
  "organizationName input =
     js_or (in_organizationName input)
       (if truthy (in_fullName input) then in_fullName input
        else js_index (js_split CHR ''@'' (in_email input)) 0)"

text \<open>
  The action. Both calls of \<open>redirect\<close> are outside the \<open>try\<close> block; the result of
  \<open>storeKnowbookApiKey\<close> is not looked at.
\<close>

definition signup :: "world \<Rightarrow> signup_input \<Rightarrow> string \<Rightarrow> unit io" where
  "signup w input baseUrl =
     io_bind
       (signUp w (signUp_data input baseUrl))
       (\<lambda>r.
          io_bind
            (case resp_error r of
               Some authError \<Rightarrow>
                 io_bind (console Error ''Supabase signup error:'')
                   (\<lambda>_. redirect ''/auth/signup?error=supabase'')
             | None \<Rightarrow> io_return ())
            (\<lambda>_.
               io_bind
                 (case data_user r of
                    None \<Rightarrow> io_return ()
                  | Some user \<Rightarrow>
                      io_try
                        (io_bind (isKnowbookApiAvailable w) (\<lambda>isApiAvailable.
                           if isApiAvailable then
                             io_bind (console Log ''Creating Knowbook organization for user:'') (\<lambda>_.
                             io_bind
                               (createKnowbookOrganization w
                                  (organizationName input)
                                  (js_or (in_fullName input)
                                     (js_index (js_split CHR ''@'' (in_email input)) 0))
                                  (in_email input)
                                  (js_index (js_split CHR ''@'' (in_email input)) 1)
                                  (Some (or_else (in_plan input) ''free'')))
                               (\<lambda>knowbookResult.
                                  case ku_api_key (admin_user knowbookResult) of
                                    None \<Rightarrow> io_return ()
                                  | Some api_key \<Rightarrow>
                                      if api_key = [] then io_return ()
                                      else
                                        io_bind
                                          (storeKnowbookApiKey w (user_id user) api_key
                                             (Some (ku_id (admin_user knowbookResult)))
                                             (Some (org_id (organization knowbookResult))))
                                          (\<lambda>_. console Log
                                             ''Successfully created Knowbook organization:'')))
                           else
                             console Warn
                               ''Knowbook API not available during signup - user can connect later''))
                        (\<lambda>e.
                           io_bind (console Error ''Knowbook integration error during signup:'') (\<lambda>_.
                           io_bind
                             (if instanceof_KnowbookApiError e
                              then console Error ''Knowbook API error details:''
                              else io_return ())
                             (\<lambda>_. console Log
                                ''Continuing with Supabase-only signup - Knowbook integration can be completed later''))))
                 (\<lambda>_. redirect ''/auth/signup/success'')))"

section \<open>The connect endpoint (\<open>app/api/knowbook/connect/route.ts\<close>)\<close>

record connect_body =
  body_organizationName :: jsval
  body_fullName :: jsval

record connected_user =
  cu_id :: string
  cu_name :: string
  cu_email :: string

datatype response_body =
    ErrorBody string
  | HasApiKeyBody string bool
  | ApiErrorBody string jsval nat
  | SuccessBody bool knowbook_organization connected_user string

record next_response =
  res_status :: nat
  res_body :: response_body

text \<open>The final \<open>NextResponse.json({ success: true, ... })\<close> of \<open>POST\<close>, with the default status 200.\<close>

definition connected :: "organization_signup_response \<Rightarrow> next_response" where
  "connected knowbookResult =
     \<lparr>res_status = 200,
      res_body = SuccessBody True
        \<lparr>org_id = org_id (organization knowbookResult),
         org_name = org_name (organization knowbookResult),
         org_slug = org_slug (organization knowbookResult),
         org_plan = org_plan (organization knowbookResult)\<rparr>
        \<lparr>cu_id = ku_id (admin_user knowbookResult),
         cu_name = ku_name (admin_user knowbookResult),
         cu_email = ku_email (admin_user knowbookResult)\<rparr>
        ''Successfully connected to Knowbook!''\<rparr>"

text \<open>The \<open>orgName\<close> that \<open>POST\<close> computes for the Backend API.\<close>

definition orgName :: "connect_body \<Rightarrow> string \<Rightarrow> jsval" where
  "orgName body email =
     js_or (body_organizationName body)
       (if truthy (body_fullName body)
        then Some (template (body_fullName body) @ [CHR 0x27] @ ''s Workspace'')
        else Some (template (js_index (js_split CHR ''@'' email) 1) @ '' Workspace''))"

text \<open>
  The handler, given what \<open>request.json()\<close> settles to. The body's \<open>organizationName\<close>
  and \<open>fullName\<close> are optional strings. On a failure to store the key the handler
  returns early with 500.
\<close>

definition POST :: "world \<Rightarrow> connect_body outcome \<Rightarrow> next_response io" where
  "POST w request_json =
     io_try
       (io_bind (getUser w) (\<lambda>r.
          case data_user r of
            None \<Rightarrow> io_return \<lparr>res_status = 401, res_body = ErrorBody ''Unauthorized''\<rparr>
          | Some user \<Rightarrow>
              if resp_error r \<noteq> None
              then io_return \<lparr>res_status = 401, res_body = ErrorBody ''Unauthorized''\<rparr>
              else if truthy (property (user_metadata user) ''knowbook_api_key'')
              then io_return
                     \<lparr>res_status = 400,
                      res_body = HasApiKeyBody ''User already has a Knowbook API key'' True\<rparr>
              else
                io_bind (settle request_json) (\<lambda>body.
                  case user_email user of
                    None \<Rightarrow>
                      io_return \<lparr>res_status = 400, res_body = ErrorBody ''User email is required''\<rparr>
                  | Some email \<Rightarrow>
                      if email = []
                      then io_return
                             \<lparr>res_status = 400, res_body = ErrorBody ''User email is required''\<rparr>
                      else
                        io_bind (isKnowbookApiAvailable w) (\<lambda>isApiAvailable.
                          if \<not> isApiAvailable
                          then io_return
                                 \<lparr>res_status = 503,
                                  res_body = ErrorBody
                                    ''Knowbook API is currently unavailable. Please try again later.''\<rparr>
                          else
                            io_bind
                              (createKnowbookOrganization w
                                 (orgName body email)
                                 (js_or (body_fullName body) (js_index (js_split CHR ''@'' email) 0))
                                 email
                                 (js_index (js_split CHR ''@'' email) 1)
                                 (Some ''free''))
                              (\<lambda>knowbookResult.
                                 case ku_api_key (admin_user knowbookResult) of
                                   None \<Rightarrow> io_return (connected knowbookResult)
                                 | Some api_key \<Rightarrow>
                                     if api_key = [] then io_return (connected knowbookResult)
                                     else
                                       io_bind
                                         (storeKnowbookApiKey w (user_id user) api_key
                                            (Some (ku_id (admin_user knowbookResult)))
                                            (Some (org_id (organization knowbookResult))))
                                         (\<lambda>storeResult.
                                            if \<not> success storeResult
                                            then
                                              io_bind (console Error ''Failed to store API key:'')
                                                (\<lambda>_. io_return
                                                   \<lparr>res_status = 500,
                                                    res_body = ErrorBody
                                                      ''Failed to store API key in user profile''\<rparr>)
                                            else io_return (connected knowbookResult)))))))
       (\<lambda>e.
          io_bind (console Error ''Knowbook connection error:'') (\<lambda>_.
            case e of
              KnowbookApiError msg statusCode details \<Rightarrow>
                io_return
                  \<lparr>res_status = (if statusCode \<ge> 400 \<and> statusCode < 600 then statusCode else 500),
                   res_body = ApiErrorBody msg details statusCode\<rparr>
            | _ \<Rightarrow> io_return \<lparr>res_status = 500, res_body = ErrorBody ''Internal server error''\<rparr>))"

section \<open>The precedence of organization names, in the spec's words\<close>

text \<open>
  The explicit organization name if provided, else the full name, else the local part
  of the email before the first \<open>@\<close>. A name is provided when it is a non-empty string.
\<close>

definition spec_organization_name :: "jsval \<Rightarrow> jsval \<Rightarrow> string \<Rightarrow> jsval" where
  "spec_organization_name explicitName fullName email =
     (if truthy explicitName then explicitName
      else if truthy fullName then fullName
      else Some (takeWhile (\<lambda>c. c \<noteq> CHR ''@'') email))"

section \<open>Example worlds\<close>

text \<open>
  Concrete collaborators, with the values of the repository's tests: a healthy Backend
  API that creates the organization and issues a key, an auth provider that knows one
  user, and a clock that reads one second after the epoch.
\<close>

definition example_user :: auth_user where
  "example_user =
     \<lparr>user_id = ''auth-user-1'',
      user_email = Some ''johndoe@example.com'',
      user_metadata = [''full_name'' \<mapsto> Some ''johndoe'']\<rparr>"

definition example_result :: organization_signup_response where
  "example_result =
     \<lparr>organization =
        \<lparr>org_id = ''org-123'', org_name = ''Test Organization'',
         org_slug = ''test-organization'', org_plan = ''free''\<rparr>,
      admin_user =
        \<lparr>ku_id = ''user-123'', ku_name = ''Test User'', ku_email = ''test@example.com'',
         ku_api_key = Some ''kb_test_key_123''\<rparr>,
      message = ''Organization created successfully''\<rparr>"

definition response_200 :: "organization_signup_response \<Rightarrow> response" where
  "response_200 result =
     \<lparr>status = 200,
      json_ApiError = Resolves \<lparr>ae_error = None, ae_detail = None, ae_status_code = None\<rparr>,
      json_SignupResponse = Resolves result\<rparr>"

definition response_error :: "nat \<Rightarrow> string \<Rightarrow> string \<Rightarrow> response" where
  "response_error code err det =
     \<lparr>status = code,
      json_ApiError =
        Resolves \<lparr>ae_error = Some err, ae_detail = Some det, ae_status_code = Some code\<rparr>,
      json_SignupResponse = Rejects (JsError ''not an OrganizationSignupResponse'')\<rparr>"

definition example_toISOString :: "int \<Rightarrow> string" where
  "example_toISOString t =
     (if t = 0 then ''1970-01-01T00:00:00.000Z'' else ''1970-01-01T00:00:01.000Z'')"

definition example_getTime :: "string \<Rightarrow> int option" where
  "example_getTime s =
     (if s = ''1970-01-01T00:00:00.000Z'' then Some 0
      else if s = ''1970-01-01T00:00:01.000Z'' then Some 1000
      else None)"

definition example_world :: world where
  "example_world =
     \<lparr>auth_signUp = (\<lambda>credentials. \<lparr>data_user = Some example_user, resp_error = None\<rparr>),
      auth_getUser = Resolves \<lparr>data_user = Some example_user, resp_error = None\<rparr>,
      admin_getUserById = (\<lambda>userId. Resolves \<lparr>data_user = Some example_user, resp_error = None\<rparr>),
      admin_updateUserById = (\<lambda>userId metadata. Resolves None),
      fetch = (\<lambda>call. Resolves (response_200 example_result)),
      clock = (\<lambda>n. 1000),
      toISOString = example_toISOString,
      date_getTime = example_getTime\<rparr>"

definition example_input :: signup_input where
  "example_input =
     \<lparr>in_email = ''johndoe@example.com'', in_password = ''password123'',
      in_fullName = None, in_organizationName = None, in_plan = None\<rparr>"

text \<open>The auth provider refuses the signup (a duplicate email).\<close>

definition world_auth_fails :: world where
  "world_auth_fails =
     example_world
       \<lparr>auth_signUp := (\<lambda>credentials.
          \<lparr>data_user = None, resp_error = Some ''User already registered''\<rparr>)\<rparr>"

text \<open>The Backend API cannot be reached: every \<open>fetch\<close> rejects.\<close>

definition world_backend_down :: world where
  "world_backend_down = example_world\<lparr>fetch := (\<lambda>call. Rejects (JsError ''Network error''))\<rparr>"

text \<open>The Backend API answers every request with 400 and an error body.\<close>

definition world_backend_400 :: world where
  "world_backend_400 =
     example_world
       \<lparr>fetch := (\<lambda>call. Resolves
          (response_error 400 ''Email already exists''
             ''User with this email already registered''))\<rparr>"

text \<open>The Backend API creates the organization and returns no key for its admin user.\<close>

definition example_result_no_key :: organization_signup_response where
  "example_result_no_key =
     example_result\<lparr>admin_user := (admin_user example_result)\<lparr>ku_api_key := None\<rparr>\<rparr>"

definition world_no_key :: world where
  "world_no_key =
     example_world\<lparr>fetch := (\<lambda>call. Resolves (response_200 example_result_no_key))\<rparr>"

text \<open>The session's user already holds a key in its metadata.\<close>

definition example_user_with_key :: auth_user where
  "example_user_with_key =
     example_user
       \<lparr>user_metadata := [''full_name'' \<mapsto> Some ''johndoe'',
                           ''knowbook_api_key'' \<mapsto> Some ''kb_test_key_123'']\<rparr>"

definition world_has_key :: world where
  "world_has_key =
     example_world
       \<lparr>auth_getUser := Resolves \<lparr>data_user = Some example_user_with_key, resp_error = None\<rparr>\<rparr>"

text \<open>The auth provider's admin calls fail: the lookup reports an error, the update too.\<close>

definition world_lookup_fails :: world where
  "world_lookup_fails =
     example_world
       \<lparr>admin_getUserById := (\<lambda>userId. Resolves \<lparr>data_user = None, resp_error = Some ''User not found''\<rparr>)\<rparr>"

definition world_update_fails :: world where
  "world_update_fails =
     example_world\<lparr>admin_updateUserById := (\<lambda>userId metadata. Resolves (Some ''Database error''))\<rparr>"

text \<open>The request, the payloads and the body that the examples use.\<close>

definition example_request :: organization_signup_request where
  "example_request =
     \<lparr>req_name = Some ''Test Organization'', req_domain = None, req_plan = None,
      req_admin_name = Some ''Test User'', req_admin_email = ''existing@example.com'',
      req_admin_type = None\<rparr>"

definition example_signup_payload :: signup_payload where
  "example_signup_payload =
     \<lparr>pl_name = Some ''johndoe'', pl_domain = Some ''example.com'', pl_plan = ''free'',
      pl_admin_name = Some ''johndoe'', pl_admin_email = ''johndoe@example.com'',
      pl_admin_type = ''human''\<rparr>"

definition example_connect_body :: connect_body where
  "example_connect_body = \<lparr>body_organizationName = None, body_fullName = Some ''John Doe''\<rparr>"

definition example_connect_payload :: signup_payload where
  "example_connect_payload =
     \<lparr>pl_name = Some (''John Doe'' @ CHR 0x27 # ''s Workspace''),
      pl_domain = Some ''example.com'', pl_plan = ''free'',
      pl_admin_name = Some ''John Doe'', pl_admin_email = ''johndoe@example.com'',
      pl_admin_type = ''human''\<rparr>"

text \<open>A record that was validated at the epoch.\<close>

definition example_metadata :: object where
  "example_metadata =
     [''knowbook_api_key'' \<mapsto> Some ''kb_test_key_123'',
      ''api_key_last_validated'' \<mapsto> Some ''1970-01-01T00:00:00.000Z'']"

section \<open>Auxiliary facts\<close>

lemmas io_defs = io_return_def io_throw_def io_bind_def io_try_def emit_def settle_def await_def
  do_fetch_def console_def new_Date_def redirect_def signUp_def getUser_def getUserById_def
  updateUserById_def

lemmas client_defs = isKnowbookApiAvailable_def healthCheck_def createKnowbookOrganization_def
  createOrganizationWithAdmin_def validateKnowbookApiKey_def validateApiKey_def

lemmas example_defs = example_world_def example_user_def example_result_def response_200_def
  response_error_def example_toISOString_def example_getTime_def example_input_def
  example_request_def world_auth_fails_def world_backend_down_def world_backend_400_def
  world_no_key_def world_has_key_def world_lookup_fails_def world_update_fails_def
  example_user_with_key_def

lemma backend_calls_append: "backend_calls (xs @ ys) = backend_calls xs @ backend_calls ys"
  by (induction xs rule: backend_calls.induct) simp_all

lemma metadata_writes_append:
  "metadata_writes (xs @ ys) = metadata_writes xs @ metadata_writes ys"
  by (induction xs rule: metadata_writes.induct) simp_all

text \<open>The first piece of a split is the text before the first separator.\<close>

lemma js_split_first: "\<exists>ps. js_split c s = takeWhile (\<lambda>x. x \<noteq> c) s # ps"
  by (induction s) auto

lemma js_index_split_0: "js_index (js_split c s) 0 = Some (takeWhile (\<lambda>x. x \<noteq> c) s)"
proof -
  obtain ps where "js_split c s = takeWhile (\<lambda>x. x \<noteq> c) s # ps"
    using js_split_first by blast
  then show ?thesis by (simp add: js_index_def)
qed

lemma organizationName_spec:
  "organizationName input =
     spec_organization_name (in_organizationName input) (in_fullName input) (in_email input)"
  by (simp add: organizationName_def spec_organization_name_def js_or_def js_index_split_0)

text \<open>More than 24 hours, counted in milliseconds.\<close>

lemma hoursSinceValidation_gt:
  "(hoursSinceValidation now lastValidated > 24) = (now - lastValidated > 24 * 60 * 60 * 1000)"
  by (auto simp add: hoursSinceValidation_def)

text \<open>What \<open>storeKnowbookApiKey\<close> resolves to, and what it writes.\<close>

lemma store_result_value:
  "fst (storeKnowbookApiKey w uid key kuid oid s) =
     Inr (case admin_updateUserById w uid
                 [''knowbook_api_key'' \<mapsto> Some key,
                  ''knowbook_user_id'' \<mapsto> kuid,
                  ''knowbook_organization_id'' \<mapsto> oid,
                  ''api_key_created_at'' \<mapsto> Some (toISOString w (clock w (clock_reads s))),
                  ''api_key_last_validated'' \<mapsto>
                     Some (toISOString w (clock w (Suc (clock_reads s))))] of
            Rejects e \<Rightarrow> \<lparr>success = False, error = Some (message_or_unknown e)\<rparr>
          | Resolves None \<Rightarrow> \<lparr>success = True, error = None\<rparr>
          | Resolves (Some msg) \<Rightarrow> \<lparr>success = False, error = Some msg\<rparr>)"
  by (simp add: storeKnowbookApiKey_def io_defs split: outcome.splits option.splits)

lemma store_writes:
  "metadata_writes (events (snd (storeKnowbookApiKey w uid key kuid oid s))) =
     metadata_writes (events s) @
       [(uid, [''knowbook_api_key'' \<mapsto> Some key,
               ''knowbook_user_id'' \<mapsto> kuid,
               ''knowbook_organization_id'' \<mapsto> oid,
               ''api_key_created_at'' \<mapsto> Some (toISOString w (clock w (clock_reads s))),
               ''api_key_last_validated'' \<mapsto>
                  Some (toISOString w (clock w (Suc (clock_reads s))))])]"
  by (simp add: storeKnowbookApiKey_def io_defs metadata_writes_append
      split: outcome.splits option.splits)

text \<open>Every organization that \<open>signup\<close> and \<open>POST\<close> ask the Backend API to create carries
  the name they computed.\<close>

lemma signup_backend_calls:
  "PostOrganizationsSignup p \<in> set (backend_calls (events (snd (signup w input baseUrl init)))) \<Longrightarrow>
     pl_name p = organizationName input"
  by (auto simp add: signup_def client_defs storeKnowbookApiKey_def io_defs init_def
        signup_body_def backend_calls_append
      split: outcome.splits option.splits if_splits prod.splits sum.splits)

lemma POST_backend_calls:
  "PostOrganizationsSignup p \<in> set (backend_calls (events (snd (POST w req init)))) \<Longrightarrow>
     \<exists>r u email body. auth_getUser w = Resolves r \<and> data_user r = Some u
        \<and> user_email u = Some email \<and> req = Resolves body \<and> pl_name p = orgName body email"
  by (auto simp add: POST_def client_defs storeKnowbookApiKey_def io_defs init_def
        signup_body_def backend_calls_append
      split: outcome.splits option.splits if_splits prod.splits sum.splits thrown.splits)

text \<open>A request to the connect endpoint writes metadata at most once.\<close>

lemma POST_writes_at_most_once:
  "length (metadata_writes (events (snd (POST w req s)))) \<le>
     Suc (length (metadata_writes (events s)))"
  by (auto simp add: POST_def client_defs storeKnowbookApiKey_def io_defs
        metadata_writes_append
      split: outcome.splits option.splits if_splits prod.splits sum.splits thrown.splits)

section \<open>Organization-name resolution\<close>

text \<open>
  C1, as amended. In the signup action the name sent to the Backend API is the explicit
  organization name if provided, else the full name, else the local part of the email
  before \<open>@\<close>. In \<open>POST /api/knowbook/connect\<close> the name sent is the explicit organization
  name if provided, else the full name followed by \<open>'s Workspace\<close>, else the piece of the
  session user's email after the first \<open>@\<close> followed by \<open> Workspace\<close>.
\<close>

theorem organization_name_sent:
  "(\<forall>p. PostOrganizationsSignup p \<in> set (backend_calls (events (snd (signup w input baseUrl init)))) \<longrightarrow>
      pl_name p =
        spec_organization_name (in_organizationName input) (in_fullName input) (in_email input))
   \<and> (\<forall>p. PostOrganizationsSignup p \<in> set (backend_calls (events (snd (POST w' req init)))) \<longrightarrow>
      (\<exists>r u email body.
         auth_getUser w' = Resolves r \<and> data_user r = Some u \<and> user_email u = Some email
         \<and> req = Resolves body
         \<and> pl_name p =
             (if truthy (body_organizationName body) then body_organizationName body
              else if truthy (body_fullName body)
              then Some (template (body_fullName body) @ CHR 0x27 # ''s Workspace'')
              else Some (template (js_index (js_split CHR ''@'' email) 1) @ '' Workspace''))))"
proof (intro conjI allI impI)
  fix p
  assume "PostOrganizationsSignup p \<in> set (backend_calls (events (snd (signup w input baseUrl init))))"
  then have "pl_name p = organizationName input"
    by (rule signup_backend_calls)
  then show "pl_name p =
      spec_organization_name (in_organizationName input) (in_fullName input) (in_email input)"
    by (simp add: organizationName_spec)
next
  fix p
  assume "PostOrganizationsSignup p \<in> set (backend_calls (events (snd (POST w' req init))))"
  then obtain r u email body where
    "auth_getUser w' = Resolves r" "data_user r = Some u" "user_email u = Some email"
    "req = Resolves body" "pl_name p = orgName body email"
    using POST_backend_calls by blast
  then show "\<exists>r u email body.
         auth_getUser w' = Resolves r \<and> data_user r = Some u \<and> user_email u = Some email
         \<and> req = Resolves body
         \<and> pl_name p =
             (if truthy (body_organizationName body) then body_organizationName body
              else if truthy (body_fullName body)
              then Some (template (body_fullName body) @ CHR 0x27 # ''s Workspace'')
              else Some (template (js_index (js_split CHR ''@'' email) 1) @ '' Workspace''))"
    by (auto simp add: orgName_def js_or_def)
qed


theorem organization_name_sent_witness:
  "PostOrganizationsSignup example_signup_payload
     \<in> set (backend_calls (events (snd (signup example_world example_input ''https://canvas.example'' init))))
   \<and> pl_name example_signup_payload =
       spec_organization_name (in_organizationName example_input) (in_fullName example_input)
         (in_email example_input)
   \<and> spec_organization_name (in_organizationName example_input) (in_fullName example_input)
         (in_email example_input) = Some ''johndoe''
   \<and> PostOrganizationsSignup example_connect_payload
     \<in> set (backend_calls (events (snd (POST example_world (Resolves example_connect_body) init))))
   \<and> pl_name example_connect_payload = Some (''John Doe'' @ CHR 0x27 # ''s Workspace'')"
proof -
  have a: "PostOrganizationsSignup example_signup_payload
     \<in> set (backend_calls (events (snd (signup example_world example_input ''https://canvas.example'' init))))"
    by (simp add: signup_def client_defs storeKnowbookApiKey_def io_defs init_def example_defs
          signup_body_def organizationName_def signUp_data_def js_or_def js_index_def or_else_def
          ok_def example_signup_payload_def)
  have b: "PostOrganizationsSignup example_connect_payload
     \<in> set (backend_calls (events (snd (POST example_world (Resolves example_connect_body) init))))"
    by (simp add: POST_def client_defs storeKnowbookApiKey_def io_defs init_def example_defs
          signup_body_def orgName_def js_or_def js_index_def or_else_def template_def
          property_def ok_def example_connect_payload_def example_connect_body_def)
  have c: "spec_organization_name (in_organizationName example_input) (in_fullName example_input)
         (in_email example_input) = Some ''johndoe''"
    by (simp add: spec_organization_name_def example_input_def)
  have d: "pl_name example_signup_payload =
       spec_organization_name (in_organizationName example_input) (in_fullName example_input)
         (in_email example_input)"
    using organization_name_sent [of example_world example_input "''https://canvas.example''"
        example_world "Resolves example_connect_body"] a
    by blast
  have e: "pl_name example_connect_payload = Some (''John Doe'' @ CHR 0x27 # ''s Workspace'')"
    by (simp add: example_connect_payload_def)
  from a b c d e show ?thesis by blast
qed

text \<open>
  C1 as stated fails for the connect endpoint: with the full name \<open>John Doe\<close> and no
  organization name, the endpoint asks the Backend API for \<open>John Doe's Workspace\<close>, not
  for \<open>John Doe\<close>.
\<close>

theorem organization_name_connect_counterexample:
  "PostOrganizationsSignup example_connect_payload
     \<in> set (backend_calls (events (snd (POST example_world (Resolves example_connect_body) init))))
   \<and> pl_name example_connect_payload \<noteq>
       spec_organization_name (body_organizationName example_connect_body)
         (body_fullName example_connect_body) ''johndoe@example.com''
   \<and> user_email example_user = Some ''johndoe@example.com''"
  by (simp add: POST_def client_defs storeKnowbookApiKey_def io_defs init_def example_defs
        signup_body_def orgName_def js_or_def js_index_def or_else_def template_def
        property_def ok_def example_connect_payload_def example_connect_body_def
        spec_organization_name_def)


section \<open>The signup workflow\<close>

text \<open>
  C2. The signup workflow has a two-tier failure policy. If the auth provider reports an
  error, the workflow redirects to the error-carrying signup URL, and no Backend API
  call and no metadata write is made. If it reports none, the workflow ends by
  redirecting to the email-confirmation page whatever the health check, the
  organization creation and the key storage do; and when the health check returns
  false, nothing is written and no organization is requested.
\<close>

theorem signup_two_tier:
  "(resp_error (auth_signUp w (signUp_data input baseUrl)) \<noteq> None \<longrightarrow>
      fst (signup w input baseUrl s) = Inl (NextRedirect ''/auth/signup?error=supabase'')
      \<and> backend_calls (events (snd (signup w input baseUrl s))) = backend_calls (events s)
      \<and> metadata_writes (events (snd (signup w input baseUrl s))) = metadata_writes (events s))
   \<and> (resp_error (auth_signUp w (signUp_data input baseUrl)) = None \<longrightarrow>
      fst (signup w input baseUrl s) = Inl (NextRedirect ''/auth/signup/success''))
   \<and> (resp_error (auth_signUp w (signUp_data input baseUrl)) = None
        \<and> fst (healthCheck w s) = Inr False \<longrightarrow>
      metadata_writes (events (snd (signup w input baseUrl s))) = metadata_writes (events s)
      \<and> backend_calls (events (snd (signup w input baseUrl s))) =
          backend_calls (events s) @
            (case data_user (auth_signUp w (signUp_data input baseUrl)) of
               None \<Rightarrow> []
             | Some user \<Rightarrow> [GetHealth]))"
  by (auto simp add: signup_def client_defs storeKnowbookApiKey_def io_defs
        backend_calls_append metadata_writes_append
      split: outcome.splits option.splits if_splits prod.splits sum.splits)

theorem signup_two_tier_witness:
  "resp_error (auth_signUp world_auth_fails (signUp_data example_input ''https://canvas.example''))
     = Some ''User already registered''
   \<and> fst (signup world_auth_fails example_input ''https://canvas.example'' init) =
       Inl (NextRedirect ''/auth/signup?error=supabase'')
   \<and> backend_calls (events (snd (signup world_auth_fails example_input ''https://canvas.example'' init))) = []
   \<and> metadata_writes (events (snd (signup world_auth_fails example_input ''https://canvas.example'' init))) = []
   \<and> resp_error (auth_signUp world_backend_down (signUp_data example_input ''https://canvas.example''))
     = None
   \<and> fst (healthCheck world_backend_down init) = Inr False
   \<and> fst (signup world_backend_down example_input ''https://canvas.example'' init) =
       Inl (NextRedirect ''/auth/signup/success'')
   \<and> metadata_writes (events (snd (signup world_backend_down example_input ''https://canvas.example'' init))) = []
   \<and> backend_calls (events (snd (signup world_backend_down example_input ''https://canvas.example'' init))) =
       [GetHealth]"
proof -
  have a: "resp_error (auth_signUp world_auth_fails (signUp_data example_input ''https://canvas.example''))
     = Some ''User already registered''"
    by (simp add: world_auth_fails_def)
  have b: "resp_error (auth_signUp world_backend_down (signUp_data example_input ''https://canvas.example''))
     = None"
    by (simp add: world_backend_down_def example_world_def)
  have c: "data_user (auth_signUp world_backend_down (signUp_data example_input ''https://canvas.example''))
     = Some example_user"
    by (simp add: world_backend_down_def example_world_def)
  have d: "fst (healthCheck world_backend_down init) = Inr False"
    by (simp add: healthCheck_def io_defs world_backend_down_def)
  have i: "backend_calls (events init) = [] \<and> metadata_writes (events init) = []"
    by (simp add: init_def)
  from a i signup_two_tier [of world_auth_fails example_input "''https://canvas.example''" init]
  have a': "fst (signup world_auth_fails example_input ''https://canvas.example'' init) =
       Inl (NextRedirect ''/auth/signup?error=supabase'')
   \<and> backend_calls (events (snd (signup world_auth_fails example_input ''https://canvas.example'' init))) = []
   \<and> metadata_writes (events (snd (signup world_auth_fails example_input ''https://canvas.example'' init))) = []"
    by simp
  from b c d i signup_two_tier [of world_backend_down example_input "''https://canvas.example''" init]
  have b': "fst (signup world_backend_down example_input ''https://canvas.example'' init) =
       Inl (NextRedirect ''/auth/signup/success'')
   \<and> metadata_writes (events (snd (signup world_backend_down example_input ''https://canvas.example'' init))) = []
   \<and> backend_calls (events (snd (signup world_backend_down example_input ''https://canvas.example'' init))) =
       [GetHealth]"
    by simp
  from a a' b d b' show ?thesis by blast
qed

section \<open>The connect endpoint\<close>

text \<open>
  C3. For every authenticated \<open>POST /api/knowbook/connect\<close> request whose user already
  has a \<open>knowbook_api_key\<close> in the metadata, the response is 400 with
  \<open>hasApiKey: true\<close>, and the request makes no Backend API call (no health check, no
  organization creation) and writes no metadata. A request writes metadata at most
  once in any case, so \<open>POST\<close> never stores a second Credential Record for an account
  that holds one.
\<close>

theorem POST_existing_key:
  "(auth_getUser w = Resolves r \<and> resp_error r = None \<and> data_user r = Some u
    \<and> truthy (property (user_metadata u) ''knowbook_api_key'') \<longrightarrow>
      fst (POST w req s) =
        Inr \<lparr>res_status = 400,
             res_body = HasApiKeyBody ''User already has a Knowbook API key'' True\<rparr>
      \<and> backend_calls (events (snd (POST w req s))) = backend_calls (events s)
      \<and> metadata_writes (events (snd (POST w req s))) = metadata_writes (events s))
   \<and> length (metadata_writes (events (snd (POST w req s)))) \<le>
       Suc (length (metadata_writes (events s)))"
proof (intro conjI impI)
  assume "auth_getUser w = Resolves r \<and> resp_error r = None \<and> data_user r = Some u
    \<and> truthy (property (user_metadata u) ''knowbook_api_key'')"
  then have run: "POST w req s =
      (Inr \<lparr>res_status = 400,
            res_body = HasApiKeyBody ''User already has a Knowbook API key'' True\<rparr>,
       s\<lparr>events := events s @ [AuthGetUser]\<rparr>)"
    by (simp add: POST_def io_defs)
  show "fst (POST w req s) =
        Inr \<lparr>res_status = 400,
             res_body = HasApiKeyBody ''User already has a Knowbook API key'' True\<rparr>"
    by (simp add: run)
  show "backend_calls (events (snd (POST w req s))) = backend_calls (events s)"
    by (simp add: run backend_calls_append)
  show "metadata_writes (events (snd (POST w req s))) = metadata_writes (events s)"
    by (simp add: run metadata_writes_append)
next
  show "length (metadata_writes (events (snd (POST w req s)))) \<le>
       Suc (length (metadata_writes (events s)))"
    by (rule POST_writes_at_most_once)
qed

theorem POST_existing_key_witness:
  "auth_getUser world_has_key = Resolves \<lparr>data_user = Some example_user_with_key, resp_error = None\<rparr>
   \<and> property (user_metadata example_user_with_key) ''knowbook_api_key'' = Some ''kb_test_key_123''
   \<and> fst (POST world_has_key (Resolves example_connect_body) init) =
       Inr \<lparr>res_status = 400,
            res_body = HasApiKeyBody ''User already has a Knowbook API key'' True\<rparr>
   \<and> backend_calls (events (snd (POST world_has_key (Resolves example_connect_body) init))) = []
   \<and> metadata_writes (events (snd (POST world_has_key (Resolves example_connect_body) init))) = []"
proof -
  have a: "auth_getUser world_has_key =
      Resolves \<lparr>data_user = Some example_user_with_key, resp_error = None\<rparr>"
    by (simp add: world_has_key_def)
  have b: "property (user_metadata example_user_with_key) ''knowbook_api_key'' =
      Some ''kb_test_key_123''"
    by (simp add: example_user_with_key_def property_def)
  have h: "auth_getUser world_has_key =
        Resolves \<lparr>data_user = Some example_user_with_key, resp_error = None\<rparr>
      \<and> resp_error \<lparr>data_user = Some example_user_with_key, resp_error = None\<rparr> = None
      \<and> data_user \<lparr>data_user = Some example_user_with_key, resp_error = None\<rparr> =
          Some example_user_with_key
      \<and> truthy (property (user_metadata example_user_with_key) ''knowbook_api_key'')"
    using a b by simp
  have i: "backend_calls (events init) = [] \<and> metadata_writes (events init) = []"
    by (simp add: init_def)
  from POST_existing_key [of world_has_key _ example_user_with_key
      "Resolves example_connect_body" init, THEN conjunct1, rule_format, OF h] i
  have c: "fst (POST world_has_key (Resolves example_connect_body) init) =
       Inr \<lparr>res_status = 400,
            res_body = HasApiKeyBody ''User already has a Knowbook API key'' True\<rparr>
   \<and> backend_calls (events (snd (POST world_has_key (Resolves example_connect_body) init))) = []
   \<and> metadata_writes (events (snd (POST world_has_key (Resolves example_connect_body) init))) = []"
    by simp
  from a b c show ?thesis by (intro conjI) simp_all
qed

text \<open>
  C9. If the organization creation that \<open>POST /api/knowbook/connect\<close> requests
  succeeds and the returned \<open>admin_user.api_key\<close> is absent, the endpoint answers 200
  with \<open>success: true\<close> and never calls \<open>storeKnowbookApiKey\<close>: no metadata is written.
\<close>

theorem POST_success_without_store:
  "PostOrganizationsSignup p \<in> set (backend_calls (events (snd (POST w req init))))
   \<and> fetch w (PostOrganizationsSignup p) = Resolves cr
   \<and> 200 \<le> status cr \<and> status cr \<le> 299
   \<and> json_SignupResponse cr = Resolves res
   \<and> \<not> truthy (ku_api_key (admin_user res)) \<longrightarrow>
     fst (POST w req init) = Inr (connected res)
     \<and> res_status (connected res) = 200
     \<and> (\<exists>org usr msg. res_body (connected res) = SuccessBody True org usr msg)
     \<and> metadata_writes (events (snd (POST w req init))) = []"
  by (auto simp add: POST_def client_defs storeKnowbookApiKey_def io_defs init_def signup_body_def
        backend_calls_append metadata_writes_append connected_def ok_def
      split: outcome.splits option.splits if_splits prod.splits sum.splits thrown.splits)

theorem POST_success_without_store_witness:
  "PostOrganizationsSignup example_connect_payload
     \<in> set (backend_calls (events (snd (POST world_no_key (Resolves example_connect_body) init))))
   \<and> ku_api_key (admin_user example_result_no_key) = None
   \<and> fst (POST world_no_key (Resolves example_connect_body) init) =
       Inr (connected example_result_no_key)
   \<and> res_status (connected example_result_no_key) = 200
   \<and> metadata_writes (events (snd (POST world_no_key (Resolves example_connect_body) init))) = []"
proof -
  have a: "PostOrganizationsSignup example_connect_payload
     \<in> set (backend_calls (events (snd (POST world_no_key (Resolves example_connect_body) init))))"
    by (simp add: POST_def client_defs storeKnowbookApiKey_def io_defs init_def example_defs
          signup_body_def orgName_def js_or_def js_index_def or_else_def template_def
          property_def ok_def example_connect_payload_def example_connect_body_def
          example_result_no_key_def)
  have b: "fetch world_no_key (PostOrganizationsSignup example_connect_payload) =
      Resolves (response_200 example_result_no_key)"
    by (simp add: world_no_key_def)
  have c: "200 \<le> status (response_200 example_result_no_key)
      \<and> status (response_200 example_result_no_key) \<le> 299
      \<and> json_SignupResponse (response_200 example_result_no_key) = Resolves example_result_no_key"
    by (simp add: response_200_def)
  have d: "ku_api_key (admin_user example_result_no_key) = None"
    by (simp add: example_result_no_key_def)
  then have d': "\<not> truthy (ku_api_key (admin_user example_result_no_key))"
    by simp
  from a b c d' POST_success_without_store [of example_connect_payload world_no_key
      "Resolves example_connect_body" "response_200 example_result_no_key" example_result_no_key]
  have e: "fst (POST world_no_key (Resolves example_connect_body) init) =
       Inr (connected example_result_no_key)
     \<and> res_status (connected example_result_no_key) = 200
     \<and> metadata_writes (events (snd (POST world_no_key (Resolves example_connect_body) init))) = []"
    by blast
  with a d show ?thesis by blast
qed


section \<open>The Backend API client\<close>



text \<open>
  C5. \<open>validateApiKey\<close> and \<open>healthCheck\<close> never throw. Both resolve to false when
  \<open>fetch\<close> rejects and when the response is not 2xx, and to true exactly when the
  response has a status from 200 to 299.
\<close>

theorem probes_never_throw:
  "fst (validateApiKey w key s) =
     Inr (case fetch w (GetMe key) of
            Rejects e \<Rightarrow> False
          | Resolves r \<Rightarrow> 200 \<le> status r \<and> status r \<le> 299)
   \<and> fst (healthCheck w s) =
     Inr (case fetch w GetHealth of
            Rejects e \<Rightarrow> False
          | Resolves r \<Rightarrow> 200 \<le> status r \<and> status r \<le> 299)"
  by (simp add: validateApiKey_def healthCheck_def ok_def io_defs split: outcome.splits)

theorem probes_never_throw_witness:
  "fst (validateApiKey example_world ''kb_valid_key'' init) = Inr True
   \<and> fst (healthCheck example_world init) = Inr True
   \<and> fst (validateApiKey world_backend_400 ''kb_invalid_key'' init) = Inr False
   \<and> fst (healthCheck world_backend_400 init) = Inr False
   \<and> fst (validateApiKey world_backend_down ''kb_test_key'' init) = Inr False
   \<and> fst (healthCheck world_backend_down init) = Inr False"
  using probes_never_throw [of example_world "''kb_valid_key''" init]
    probes_never_throw [of world_backend_400 "''kb_invalid_key''" init]
    probes_never_throw [of world_backend_down "''kb_test_key''" init]
  by (simp add: example_defs)

section \<open>The credential store adapter\<close>

text \<open>
  C6. Staleness is a function of the record and the clock alone: \<open>shouldRefreshApiKey\<close>
  calls no collaborator and returns true exactly when \<open>api_key_last_validated\<close> is absent
  (undefined or empty) or is a date more than 24 hours before the current time. A date
  exactly 24 h and 1 s in the past is stale; a date exactly 23 h 59 min 59 s in the past
  is not.
\<close>

theorem shouldRefreshApiKey_staleness:
  "fst (shouldRefreshApiKey w m s) =
     Inr (case property m ''api_key_last_validated'' of
            None \<Rightarrow> True
          | Some v \<Rightarrow>
              v = [] \<or>
              (case date_getTime w v of
                 None \<Rightarrow> False
               | Some t \<Rightarrow> clock w (clock_reads s) - t > 24 * 60 * 60 * 1000))
   \<and> events (snd (shouldRefreshApiKey w m s)) = events s
   \<and> (\<forall>v t. property m ''api_key_last_validated'' = Some v \<and> v \<noteq> []
          \<and> date_getTime w v = Some t
          \<and> clock w (clock_reads s) - t = (24 * 60 * 60 + 1) * 1000 \<longrightarrow>
        fst (shouldRefreshApiKey w m s) = Inr True)
   \<and> (\<forall>v t. property m ''api_key_last_validated'' = Some v \<and> v \<noteq> []
          \<and> date_getTime w v = Some t
          \<and> clock w (clock_reads s) - t = (23 * 60 * 60 + 59 * 60 + 59) * 1000 \<longrightarrow>
        fst (shouldRefreshApiKey w m s) = Inr False)"
  by (simp add: shouldRefreshApiKey_def io_defs hoursSinceValidation_gt split: option.splits)

theorem shouldRefreshApiKey_staleness_witness:
  "property example_metadata ''api_key_last_validated'' = Some ''1970-01-01T00:00:00.000Z''
   \<and> date_getTime example_world ''1970-01-01T00:00:00.000Z'' = Some 0
   \<and> fst (shouldRefreshApiKey (example_world\<lparr>clock := (\<lambda>n. 86401000)\<rparr>) example_metadata init)
       = Inr True
   \<and> fst (shouldRefreshApiKey (example_world\<lparr>clock := (\<lambda>n. 86399000)\<rparr>) example_metadata init)
       = Inr False
   \<and> fst (shouldRefreshApiKey example_world (user_metadata example_user) init) = Inr True"
proof -
  have a: "property example_metadata ''api_key_last_validated'' = Some ''1970-01-01T00:00:00.000Z''"
    by (simp add: example_metadata_def property_def)
  have b: "date_getTime example_world ''1970-01-01T00:00:00.000Z'' = Some 0"
    by (simp add: example_world_def example_getTime_def)
  have c: "fst (shouldRefreshApiKey (example_world\<lparr>clock := (\<lambda>n. 86401000)\<rparr>) example_metadata init)
       = Inr True"
    using a b shouldRefreshApiKey_staleness
      [of "example_world\<lparr>clock := (\<lambda>n. 86401000)\<rparr>" example_metadata init]
    by simp
  have d: "fst (shouldRefreshApiKey (example_world\<lparr>clock := (\<lambda>n. 86399000)\<rparr>) example_metadata init)
       = Inr False"
    using a b shouldRefreshApiKey_staleness
      [of "example_world\<lparr>clock := (\<lambda>n. 86399000)\<rparr>" example_metadata init]
    by simp
  have e: "fst (shouldRefreshApiKey example_world (user_metadata example_user) init) = Inr True"
    using shouldRefreshApiKey_staleness [of example_world "user_metadata example_user" init]
    by (simp add: example_user_def property_def)
  from a b c d e show ?thesis by blast
qed

text \<open>
  C7. \<open>storeKnowbookApiKey\<close> never raises to its caller: it resolves to a result, which
  is a success exactly when the auth provider's update resolves without an error, and
  which carries \<open>success: false\<close> and an error message on every failure. Its one write
  stamps \<open>api_key_created_at\<close> and \<open>api_key_last_validated\<close> with the clock's readings at
  the write, so that the stored record is not stale for the next 24 hours (given that
  the runtime parses the date it printed).
\<close>

theorem storeKnowbookApiKey_never_raises:
  "\<exists>r obj.
     fst (storeKnowbookApiKey w uid key kuid oid s) = Inr r
     \<and> (success r = (admin_updateUserById w uid obj = Resolves None))
     \<and> (\<not> success r \<longrightarrow> error r \<noteq> None)
     \<and> metadata_writes (events (snd (storeKnowbookApiKey w uid key kuid oid s))) =
         metadata_writes (events s) @ [(uid, obj)]
     \<and> property obj ''api_key_created_at'' = Some (toISOString w (clock w (clock_reads s)))
     \<and> property obj ''api_key_last_validated'' =
         Some (toISOString w (clock w (Suc (clock_reads s))))
     \<and> (\<forall>s'. toISOString w (clock w (Suc (clock_reads s))) \<noteq> []
            \<and> date_getTime w (toISOString w (clock w (Suc (clock_reads s)))) =
                Some (clock w (Suc (clock_reads s)))
            \<and> clock w (clock_reads s') - clock w (Suc (clock_reads s)) \<le> 24 * 60 * 60 * 1000 \<longrightarrow>
          fst (shouldRefreshApiKey w obj s') = Inr False)"
proof -
  let ?obj = "[''knowbook_api_key'' \<mapsto> Some key,
               ''knowbook_user_id'' \<mapsto> kuid,
               ''knowbook_organization_id'' \<mapsto> oid,
               ''api_key_created_at'' \<mapsto> Some (toISOString w (clock w (clock_reads s))),
               ''api_key_last_validated'' \<mapsto>
                  Some (toISOString w (clock w (Suc (clock_reads s))))]"
  let ?r = "case admin_updateUserById w uid ?obj of
              Rejects e \<Rightarrow> \<lparr>success = False, error = Some (message_or_unknown e)\<rparr>
            | Resolves None \<Rightarrow> \<lparr>success = True, error = None\<rparr>
            | Resolves (Some msg) \<Rightarrow> \<lparr>success = False, error = Some msg\<rparr>"
  have v: "fst (storeKnowbookApiKey w uid key kuid oid s) = Inr ?r"
    by (rule store_result_value)
  have ok: "success ?r = (admin_updateUserById w uid ?obj = Resolves None)"
    by (simp split: outcome.splits option.splits)
  have err: "\<not> success ?r \<longrightarrow> error ?r \<noteq> None"
    by (simp split: outcome.splits option.splits)
  have wr: "metadata_writes (events (snd (storeKnowbookApiKey w uid key kuid oid s))) =
         metadata_writes (events s) @ [(uid, ?obj)]"
    by (rule store_writes)
  have c: "property ?obj ''api_key_created_at'' = Some (toISOString w (clock w (clock_reads s)))"
    by (simp add: property_def)
  have l: "property ?obj ''api_key_last_validated'' =
         Some (toISOString w (clock w (Suc (clock_reads s))))"
    by (simp add: property_def)
  have fresh: "\<forall>s'. toISOString w (clock w (Suc (clock_reads s))) \<noteq> []
            \<and> date_getTime w (toISOString w (clock w (Suc (clock_reads s)))) =
                Some (clock w (Suc (clock_reads s)))
            \<and> clock w (clock_reads s') - clock w (Suc (clock_reads s)) \<le> 24 * 60 * 60 * 1000 \<longrightarrow>
          fst (shouldRefreshApiKey w ?obj s') = Inr False"
    using l by (simp add: shouldRefreshApiKey_def io_defs hoursSinceValidation_gt)
  from v ok err wr c l fresh show ?thesis by blast
qed


theorem storeKnowbookApiKey_never_raises_witness:
  "(\<exists>r obj.
      fst (storeKnowbookApiKey example_world ''auth-user-1'' ''kb_test_key_123''
             (Some ''user-123'') (Some ''org-123'') init) = Inr r
      \<and> success r
      \<and> metadata_writes (events (snd (storeKnowbookApiKey example_world ''auth-user-1''
             ''kb_test_key_123'' (Some ''user-123'') (Some ''org-123'') init))) =
          [(''auth-user-1'', obj)]
      \<and> property obj ''api_key_created_at'' = Some ''1970-01-01T00:00:01.000Z''
      \<and> property obj ''api_key_last_validated'' = Some ''1970-01-01T00:00:01.000Z''
      \<and> fst (shouldRefreshApiKey example_world obj init) = Inr False)
   \<and> (\<exists>r. fst (storeKnowbookApiKey world_update_fails ''auth-user-1'' ''kb_test_key_123''
             (Some ''user-123'') (Some ''org-123'') init) = Inr r
      \<and> \<not> success r \<and> error r \<noteq> None)"
proof -
  obtain r obj where
    "fst (storeKnowbookApiKey example_world ''auth-user-1'' ''kb_test_key_123''
             (Some ''user-123'') (Some ''org-123'') init) = Inr r"
    "success r = (admin_updateUserById example_world ''auth-user-1'' obj = Resolves None)"
    "metadata_writes (events (snd (storeKnowbookApiKey example_world ''auth-user-1''
             ''kb_test_key_123'' (Some ''user-123'') (Some ''org-123'') init))) =
          metadata_writes (events init) @ [(''auth-user-1'', obj)]"
    "property obj ''api_key_created_at'' =
       Some (toISOString example_world (clock example_world (clock_reads init)))"
    "property obj ''api_key_last_validated'' =
       Some (toISOString example_world (clock example_world (Suc (clock_reads init))))"
    "\<forall>s'. toISOString example_world (clock example_world (Suc (clock_reads init))) \<noteq> []
        \<and> date_getTime example_world
             (toISOString example_world (clock example_world (Suc (clock_reads init)))) =
            Some (clock example_world (Suc (clock_reads init)))
        \<and> clock example_world (clock_reads s') - clock example_world (Suc (clock_reads init))
            \<le> 24 * 60 * 60 * 1000 \<longrightarrow>
        fst (shouldRefreshApiKey example_world obj s') = Inr False"
    using storeKnowbookApiKey_never_raises [of example_world "''auth-user-1''"
        "''kb_test_key_123''" "Some ''user-123''" "Some ''org-123''" init]
    by blast
  then have a: "\<exists>r obj.
      fst (storeKnowbookApiKey example_world ''auth-user-1'' ''kb_test_key_123''
             (Some ''user-123'') (Some ''org-123'') init) = Inr r
      \<and> success r
      \<and> metadata_writes (events (snd (storeKnowbookApiKey example_world ''auth-user-1''
             ''kb_test_key_123'' (Some ''user-123'') (Some ''org-123'') init))) =
          [(''auth-user-1'', obj)]
      \<and> property obj ''api_key_created_at'' = Some ''1970-01-01T00:00:01.000Z''
      \<and> property obj ''api_key_last_validated'' = Some ''1970-01-01T00:00:01.000Z''
      \<and> fst (shouldRefreshApiKey example_world obj init) = Inr False"
    by (simp add: example_world_def example_toISOString_def example_getTime_def init_def)
  obtain r' obj' where
    "fst (storeKnowbookApiKey world_update_fails ''auth-user-1'' ''kb_test_key_123''
             (Some ''user-123'') (Some ''org-123'') init) = Inr r'"
    "success r' = (admin_updateUserById world_update_fails ''auth-user-1'' obj' = Resolves None)"
    "\<not> success r' \<longrightarrow> error r' \<noteq> None"
    using storeKnowbookApiKey_never_raises [of world_update_fails "''auth-user-1''"
        "''kb_test_key_123''" "Some ''user-123''" "Some ''org-123''" init]
    by blast
  then have b: "\<exists>r. fst (storeKnowbookApiKey world_update_fails ''auth-user-1'' ''kb_test_key_123''
             (Some ''user-123'') (Some ''org-123'') init) = Inr r
      \<and> \<not> success r \<and> error r \<noteq> None"
    by (simp add: world_update_fails_def)
  from a b show ?thesis by blast
qed


text \<open>
  C8. \<open>updateApiKeyValidation\<close> never raises. When the user lookup succeeds, its one
  write passes the user's current metadata with \<open>api_key_last_validated\<close> set to the
  current time and every other field as it was read; when that write fails, the
  failure is logged. When the lookup fails (it rejects, reports an error or finds no
  user), the failure is logged and nothing is written.
\<close>

theorem updateApiKeyValidation_frame:
  "fst (updateApiKeyValidation w uid s) = Inr ()
   \<and> (\<forall>r u. admin_getUserById w uid = Resolves r \<and> data_user r = Some u \<and> resp_error r = None \<longrightarrow>
        (\<exists>obj. metadata_writes (events (snd (updateApiKeyValidation w uid s))) =
                 metadata_writes (events s) @ [(uid, obj)]
             \<and> obj ''api_key_last_validated'' =
                 Some (Some (toISOString w (clock w (clock_reads s))))
             \<and> (\<forall>k. k \<noteq> ''api_key_last_validated'' \<longrightarrow> obj k = user_metadata u k)
             \<and> (admin_updateUserById w uid obj \<noteq> Resolves None \<longrightarrow>
                  (\<exists>msg. last (events (snd (updateApiKeyValidation w uid s))) = Console Error msg))))
   \<and> ((case admin_getUserById w uid of
          Rejects e \<Rightarrow> True
        | Resolves r \<Rightarrow> data_user r = None \<or> resp_error r \<noteq> None) \<longrightarrow>
        metadata_writes (events (snd (updateApiKeyValidation w uid s))) = metadata_writes (events s)
        \<and> (\<exists>msg. last (events (snd (updateApiKeyValidation w uid s))) = Console Error msg))"
  by (auto simp add: updateApiKeyValidation_def io_defs metadata_writes_append
      split: outcome.splits option.splits)

theorem updateApiKeyValidation_frame_witness:
  "(\<exists>obj. metadata_writes (events (snd (updateApiKeyValidation example_world ''auth-user-1'' init))) =
            [(''auth-user-1'', obj)]
        \<and> obj ''api_key_last_validated'' = Some (Some ''1970-01-01T00:00:01.000Z'')
        \<and> obj ''full_name'' = Some (Some ''johndoe'')
        \<and> obj ''avatar_url'' = None)
   \<and> fst (updateApiKeyValidation world_lookup_fails ''auth-user-1'' init) = Inr ()
   \<and> metadata_writes (events (snd (updateApiKeyValidation world_lookup_fails ''auth-user-1'' init))) = []
   \<and> (\<exists>msg. last (events (snd (updateApiKeyValidation world_lookup_fails ''auth-user-1'' init))) =
          Console Error msg)
   \<and> fst (updateApiKeyValidation world_update_fails ''auth-user-1'' init) = Inr ()
   \<and> (\<exists>msg. last (events (snd (updateApiKeyValidation world_update_fails ''auth-user-1'' init))) =
          Console Error msg)"
proof -
  have i: "metadata_writes (events init) = []"
    by (simp add: init_def)
  have t: "toISOString example_world (clock example_world (clock_reads init)) =
      ''1970-01-01T00:00:01.000Z''"
    by (simp add: example_world_def example_toISOString_def)
  have m: "user_metadata example_user ''full_name'' = Some (Some ''johndoe'')
      \<and> user_metadata example_user ''avatar_url'' = None"
    by (simp add: example_user_def)
  have a: "admin_getUserById example_world ''auth-user-1'' =
        Resolves \<lparr>data_user = Some example_user, resp_error = None\<rparr>
      \<and> data_user \<lparr>data_user = Some example_user, resp_error = None\<rparr> = Some example_user
      \<and> resp_error \<lparr>data_user = Some example_user, resp_error = None\<rparr> = None"
    by (simp add: example_world_def)
  from updateApiKeyValidation_frame [of example_world "''auth-user-1''" init,
      THEN conjunct2, THEN conjunct1, rule_format, OF a]
  obtain obj where o:
    "metadata_writes (events (snd (updateApiKeyValidation example_world ''auth-user-1'' init))) =
       metadata_writes (events init) @ [(''auth-user-1'', obj)]"
    "obj ''api_key_last_validated'' =
       Some (Some (toISOString example_world (clock example_world (clock_reads init))))"
    "\<forall>k. k \<noteq> ''api_key_last_validated'' \<longrightarrow> obj k = user_metadata example_user k"
    by blast
  from o(3) have "obj ''full_name'' = user_metadata example_user ''full_name''"
    and "obj ''avatar_url'' = user_metadata example_user ''avatar_url''"
    by simp_all
  with o(1,2) i t m have a': "\<exists>obj.
        metadata_writes (events (snd (updateApiKeyValidation example_world ''auth-user-1'' init))) =
            [(''auth-user-1'', obj)]
        \<and> obj ''api_key_last_validated'' = Some (Some ''1970-01-01T00:00:01.000Z'')
        \<and> obj ''full_name'' = Some (Some ''johndoe'')
        \<and> obj ''avatar_url'' = None"
    by simp
  have b: "case admin_getUserById world_lookup_fails ''auth-user-1'' of
             Rejects e \<Rightarrow> True
           | Resolves r \<Rightarrow> data_user r = None \<or> resp_error r \<noteq> None"
    by (simp add: world_lookup_fails_def)
  from updateApiKeyValidation_frame [of world_lookup_fails "''auth-user-1''" init,
      THEN conjunct2, THEN conjunct2, rule_format, OF b] i
  have b': "metadata_writes (events (snd (updateApiKeyValidation world_lookup_fails ''auth-user-1'' init))) = []
   \<and> (\<exists>msg. last (events (snd (updateApiKeyValidation world_lookup_fails ''auth-user-1'' init))) =
          Console Error msg)"
    by simp
  from updateApiKeyValidation_frame [of world_lookup_fails "''auth-user-1''" init,
      THEN conjunct1]
  have c: "fst (updateApiKeyValidation world_lookup_fails ''auth-user-1'' init) = Inr ()" .
  have d: "admin_getUserById world_update_fails ''auth-user-1'' =
        Resolves \<lparr>data_user = Some example_user, resp_error = None\<rparr>
      \<and> data_user \<lparr>data_user = Some example_user, resp_error = None\<rparr> = Some example_user
      \<and> resp_error \<lparr>data_user = Some example_user, resp_error = None\<rparr> = None"
    by (simp add: world_update_fails_def example_world_def)
  from updateApiKeyValidation_frame [of world_update_fails "''auth-user-1''" init,
      THEN conjunct2, THEN conjunct1, rule_format, OF d]
  obtain obj' where o':
    "admin_updateUserById world_update_fails ''auth-user-1'' obj' \<noteq> Resolves None \<longrightarrow>
       (\<exists>msg. last (events (snd (updateApiKeyValidation world_update_fails ''auth-user-1'' init))) =
          Console Error msg)"
    by blast
  have "admin_updateUserById world_update_fails ''auth-user-1'' obj' \<noteq> Resolves None"
    by (simp add: world_update_fails_def)
  with o' have d': "\<exists>msg.
       last (events (snd (updateApiKeyValidation world_update_fails ''auth-user-1'' init))) =
          Console Error msg"
    by (rule mp)
  from updateApiKeyValidation_frame [of world_update_fails "''auth-user-1''" init,
      THEN conjunct1]
  have e: "fst (updateApiKeyValidation world_update_fails ''auth-user-1'' init) = Inr ()" .
  from a' b' c d' e show ?thesis by (intro conjI) simp_all
qed


text \<open>
  C10. The metadata object that \<open>storeKnowbookApiKey\<close> passes to the auth provider's
  update call has exactly the five Knowbook fields (\<open>knowbook_api_key\<close>,
  \<open>knowbook_user_id\<close>, \<open>knowbook_organization_id\<close>, \<open>api_key_created_at\<close>,
  \<open>api_key_last_validated\<close>): whatever metadata the user holds, every other field
  (\<open>full_name\<close>, say) is absent from the written object.
\<close>

theorem storeKnowbookApiKey_writes_five_fields:
  "\<exists>obj.
     metadata_writes (events (snd (storeKnowbookApiKey w uid key kuid oid s))) =
       metadata_writes (events s) @ [(uid, obj)]
     \<and> dom obj = {''knowbook_api_key'', ''knowbook_user_id'', ''knowbook_organization_id'',
                  ''api_key_created_at'', ''api_key_last_validated''}
     \<and> (\<forall>k. k \<notin> {''knowbook_api_key'', ''knowbook_user_id'', ''knowbook_organization_id'',
                  ''api_key_created_at'', ''api_key_last_validated''} \<longrightarrow> obj k = None)"
proof -
  let ?obj = "[''knowbook_api_key'' \<mapsto> Some key,
               ''knowbook_user_id'' \<mapsto> kuid,
               ''knowbook_organization_id'' \<mapsto> oid,
               ''api_key_created_at'' \<mapsto> Some (toISOString w (clock w (clock_reads s))),
               ''api_key_last_validated'' \<mapsto>
                  Some (toISOString w (clock w (Suc (clock_reads s))))]"
  have wr: "metadata_writes (events (snd (storeKnowbookApiKey w uid key kuid oid s))) =
         metadata_writes (events s) @ [(uid, ?obj)]"
    by (rule store_writes)
  have d: "dom ?obj = {''knowbook_api_key'', ''knowbook_user_id'', ''knowbook_organization_id'',
                  ''api_key_created_at'', ''api_key_last_validated''}"
    by (simp add: insert_commute)
  have n: "\<forall>k. k \<notin> {''knowbook_api_key'', ''knowbook_user_id'', ''knowbook_organization_id'',
                  ''api_key_created_at'', ''api_key_last_validated''} \<longrightarrow> ?obj k = None"
    by simp
  show ?thesis
  proof (rule exI [of _ ?obj], intro conjI)
    show "metadata_writes (events (snd (storeKnowbookApiKey w uid key kuid oid s))) =
         metadata_writes (events s) @ [(uid, ?obj)]"
      by (rule wr)
    show "dom ?obj = {''knowbook_api_key'', ''knowbook_user_id'', ''knowbook_organization_id'',
                  ''api_key_created_at'', ''api_key_last_validated''}"
      by (rule d)
    show "\<forall>k. k \<notin> {''knowbook_api_key'', ''knowbook_user_id'', ''knowbook_organization_id'',
                  ''api_key_created_at'', ''api_key_last_validated''} \<longrightarrow> ?obj k = None"
      by (rule n)
  qed
qed

theorem storeKnowbookApiKey_writes_five_fields_witness:
  "admin_getUserById example_world ''auth-user-1'' =
     Resolves \<lparr>data_user = Some example_user, resp_error = None\<rparr>
   \<and> user_metadata example_user ''full_name'' = Some (Some ''johndoe'')
   \<and> ''full_name'' \<notin> {''knowbook_api_key'', ''knowbook_user_id'', ''knowbook_organization_id'',
                        ''api_key_created_at'', ''api_key_last_validated''}
   \<and> (\<exists>obj. metadata_writes (events (snd (storeKnowbookApiKey example_world ''auth-user-1''
                 ''kb_test_key_123'' (Some ''user-123'') (Some ''org-123'') init))) =
              [(''auth-user-1'', obj)]
          \<and> obj ''full_name'' = None)"
proof -
  have a: "admin_getUserById example_world ''auth-user-1'' =
     Resolves \<lparr>data_user = Some example_user, resp_error = None\<rparr>"
    by (simp add: example_world_def)
  have b: "user_metadata example_user ''full_name'' = Some (Some ''johndoe'')"
    by (simp add: example_user_def)
  have c: "''full_name'' \<notin> {''knowbook_api_key'', ''knowbook_user_id'', ''knowbook_organization_id'',
                        ''api_key_created_at'', ''api_key_last_validated''}"
    by simp
  have i: "metadata_writes (events init) = []"
    by (simp add: init_def)
  from storeKnowbookApiKey_writes_five_fields [of example_world "''auth-user-1''"
        "''kb_test_key_123''" "Some ''user-123''" "Some ''org-123''" init]
  obtain obj where o:
    "metadata_writes (events (snd (storeKnowbookApiKey example_world ''auth-user-1''
                 ''kb_test_key_123'' (Some ''user-123'') (Some ''org-123'') init))) =
       metadata_writes (events init) @ [(''auth-user-1'', obj)]
     \<and> dom obj = {''knowbook_api_key'', ''knowbook_user_id'', ''knowbook_organization_id'',
                  ''api_key_created_at'', ''api_key_last_validated''}
     \<and> (\<forall>k. k \<notin> {''knowbook_api_key'', ''knowbook_user_id'', ''knowbook_organization_id'',
                  ''api_key_created_at'', ''api_key_last_validated''} \<longrightarrow> obj k = None)" ..
  from o [THEN conjunct2, THEN conjunct2, rule_format, OF c]
  have n: "obj ''full_name'' = None" .
  from o [THEN conjunct1] i
  have w: "metadata_writes (events (snd (storeKnowbookApiKey example_world ''auth-user-1''
                 ''kb_test_key_123'' (Some ''user-123'') (Some ''org-123'') init))) =
              [(''auth-user-1'', obj)]"
    by simp
  from w n have e: "\<exists>obj. metadata_writes (events (snd (storeKnowbookApiKey example_world ''auth-user-1''
                 ''kb_test_key_123'' (Some ''user-123'') (Some ''org-123'') init))) =
              [(''auth-user-1'', obj)]
          \<and> obj ''full_name'' = None"
    by (intro exI conjI)
  from a b c e show ?thesis by (intro conjI)
qed

end
